theory Spec2Isabelle
  imports Complex_Main "HOL-Library.Multiset"
begin

section \<open>Values\<close>

text \<open>
  The query descriptor reaches \<^verbatim>\<open>tool_query\<close> as decoded JSON, so a Python value is one
  of the JSON shapes. Floats are modelled by the rational number they denote (no NaN or
  infinity among descriptor values)\<close>

datatype pyval =
    PNone
  | PBool bool
  | PInt int
  | PFloat rat
  | PStr string
  | PList "pyval list"
  | PDict "(string \<times> pyval) list"

text \<open>The exceptions the modelled code can raise.\<close>

datatype error = TypeError | ValueError | AttributeError | KeyError

text \<open>Python truthiness, as used by \<^verbatim>\<open>x or default\<close>, \<^verbatim>\<open>if x\<close> and \<^verbatim>\<open>bool(x)\<close>.\<close>

fun truthy :: "pyval \<Rightarrow> bool" where
  "truthy PNone = False"
| "truthy (PBool b) = b"
| "truthy (PInt n) = (n \<noteq> 0)"
| "truthy (PFloat r) = (r \<noteq> 0)"
| "truthy (PStr s) = (s \<noteq> [])"
| "truthy (PList xs) = (xs \<noteq> [])"
| "truthy (PDict kvs) = (kvs \<noteq> [])"

text \<open>\<^verbatim>\<open>d.get(k)\<close> on a decoded JSON object: the value of the key, None when absent.\<close>

definition dict_get :: "(string \<times> pyval) list \<Rightarrow> string \<Rightarrow> pyval" where
  "dict_get kvs k = (case map_of kvs k of Some v \<Rightarrow> v | None \<Rightarrow> PNone)"

section \<open>Strings\<close>

definition lower_char :: "char \<Rightarrow> char" where
  "lower_char c =
     (let n = (of_char c :: nat) in if 65 \<le> n \<and> n \<le> 90 then char_of (n + 32) else c)"

definition lower :: "string \<Rightarrow> string" where
  "lower s = map lower_char s"

definition is_space :: "char \<Rightarrow> bool" where
  "is_space c = (let n = (of_char c :: nat) in n = 32 \<or> (9 \<le> n \<and> n \<le> 13))"

definition strip :: "string \<Rightarrow> string" where
  "strip s = rev (dropWhile is_space (rev (dropWhile is_space s)))"

fun startswith :: "string \<Rightarrow> string \<Rightarrow> bool" where
  "startswith s [] = True"
| "startswith [] (p # ps) = False"
| "startswith (c # cs) (p # ps) = (c = p \<and> startswith cs ps)"

definition endswith :: "string \<Rightarrow> string \<Rightarrow> bool" where
  "endswith s suffix = startswith (rev s) (rev suffix)"

text \<open>\<^verbatim>\<open>sub in s\<close> on strings.\<close>

fun str_in :: "string \<Rightarrow> string \<Rightarrow> bool" where
  "str_in sub [] = (sub = [])"
| "str_in sub (c # cs) = (startswith (c # cs) sub \<or> str_in sub cs)"

section \<open>Dates\<close>

text \<open>
  A \<^verbatim>\<open>datetime.date\<close> is represented by its proleptic Gregorian ordinal
  (\<^verbatim>\<open>date.toordinal()\<close>): comparison of dates is comparison of ordinals and
  \<^verbatim>\<open>(b - a).days\<close> is their difference.\<close>

type_synonym date = int

definition is_leap :: "int \<Rightarrow> bool" where
  "is_leap y = (if y mod 100 = 0 then y mod 400 = 0 else y mod 4 = 0)"

definition days_in_month :: "int \<Rightarrow> int \<Rightarrow> int" where
  "days_in_month y m =
     (if m = 2 then (if is_leap y then 29 else 28)
      else if m = 4 \<or> m = 6 \<or> m = 9 \<or> m = 11 then 30 else 31)"

definition days_before_year :: "int \<Rightarrow> int" where
  "days_before_year y = (y - 1) * 365 + (y - 1) div 4 - (y - 1) div 100 + (y - 1) div 400"

definition days_before_month :: "int \<Rightarrow> int \<Rightarrow> int" where
  "days_before_month y m = (\<Sum>k \<leftarrow> [1..m - 1]. days_in_month y k)"

definition ymd :: "int \<Rightarrow> int \<Rightarrow> int \<Rightarrow> date" where
  "ymd y m d = days_before_year y + days_before_month y m + d"

definition valid_ymd :: "int \<Rightarrow> int \<Rightarrow> int \<Rightarrow> bool" where
  "valid_ymd y m d = (1 \<le> y \<and> y \<le> 9999 \<and> 1 \<le> m \<and> m \<le> 12 \<and> 1 \<le> d \<and> d \<le> days_in_month y m)"

definition digit_val :: "char \<Rightarrow> int option" where
  "digit_val c =
     (let n = (of_char c :: nat) in if 48 \<le> n \<and> n \<le> 57 then Some (int n - 48) else None)"

fun digits_val :: "int \<Rightarrow> string \<Rightarrow> int option" where
  "digits_val acc [] = Some acc"
| "digits_val acc (c # cs) =
     (case digit_val c of None \<Rightarrow> None | Some v \<Rightarrow> digits_val (10 * acc + v) cs)"

definition nat_of_digits :: "string \<Rightarrow> int option" where
  "nat_of_digits s = (if s = [] then None else digits_val 0 s)"

text \<open>
  \<^verbatim>\<open>pd.to_datetime(s, errors="coerce")\<close> on a string: the ISO form
  \<^verbatim>\<open>YYYY-MM-DD\<close> that the planner is told to produce is parsed; every other
  spelling is treated as unparseable.\<close>

definition parse_iso_date :: "string \<Rightarrow> date option" where
  "parse_iso_date s0 =
     (let s = strip s0 in
      if length s = 10 \<and> s ! 4 = CHR ''-'' \<and> s ! 7 = CHR ''-'' then
        (case (nat_of_digits (take 4 s), nat_of_digits (take 2 (drop 5 s)),
               nat_of_digits (drop 8 s)) of
           (Some y, Some m, Some d) \<Rightarrow> if valid_ymd y m d then Some (ymd y m d) else None
         | _ \<Rightarrow> None)
      else None)"

text \<open>
  \<^verbatim>\<open>_to_pydate\<close>. A missing value and a value that pandas cannot turn into a
  timestamp both give None here (pandas' NaT is identified with None). A number is read
  as nanoseconds since 1970-01-01. A list reaches \<^verbatim>\<open>if pd.isna(x)\<close> as an
  array of booleans, whose truth value is an error when it has two or more elements.\<close>

definition epoch_ordinal :: date where
  "epoch_ordinal = 719163"

definition ns_per_day :: int where
  "ns_per_day = 86400 * 1000000000"

fun to_pydate :: "pyval \<Rightarrow> error + date option" where
  "to_pydate PNone = Inr None"
| "to_pydate (PBool b) = Inr None"
| "to_pydate (PInt n) = Inr (Some (epoch_ordinal + n div ns_per_day))"
| "to_pydate (PFloat r) = Inr (Some (epoch_ordinal + \<lfloor>r\<rfloor> div ns_per_day))"
| "to_pydate (PStr s) = Inr (parse_iso_date s)"
| "to_pydate (PList xs) = (if 2 \<le> length xs then Inl ValueError else Inr None)"
| "to_pydate (PDict kvs) = Inr None"

section \<open>The derived revenue metric\<close>

text \<open>\<^verbatim>\<open>_overlap_months(cs, ce, ws, we)\<close>; the divisor 30.4 is 152/5.\<close>

definition overlap_months :: "date option \<Rightarrow> date option \<Rightarrow> date option \<Rightarrow> date option \<Rightarrow> int" where
  "overlap_months cs ce ws we =
     (if cs = None \<or> ce = None \<or> ws = None \<or> we = None then 0
      else
        let a = max (the cs) (the ws); b = min (the ce) (the we) in
        if b < a then 0
        else \<lceil>(of_int ((b - a) + 1) :: rat) / (152 / 5)\<rceil>)"

text \<open>\<^verbatim>\<open>Series.round(2)\<close> on one value: scale, round half to even, scale back.\<close>

definition round_half_even :: "rat \<Rightarrow> int" where
  "round_half_even x =
     (let f = \<lfloor>x\<rfloor>; d = x - of_int f in
      if d < 1 / 2 then f
      else if 1 / 2 < d then f + 1
      else if even f then f else f + 1)"

definition round2 :: "rat \<Rightarrow> rat" where
  "round2 x = of_int (round_half_even (x * 100)) / 100"

section \<open>Numbers from strings\<close>

text \<open>
  \<^verbatim>\<open>float(s)\<close> on a string: optional sign, then \<^verbatim>\<open>inf\<close>, \<^verbatim>\<open>infinity\<close>,
  \<^verbatim>\<open>nan\<close> or a decimal literal with optional fraction and exponent; digits may be
  grouped by single underscores. The result is the number denoted (floats are modelled by
  rationals), an infinity or NaN; None stands for the ValueError that the callers catch.\<close>

datatype pyfloat = Fin rat | PosInf | NegInf | NaN

definition is_digit :: "char \<Rightarrow> bool" where
  "is_digit c = (digit_val c \<noteq> None)"

fun take_digitpart :: "string \<Rightarrow> string \<times> string" where
  "take_digitpart [] = ([], [])"
| "take_digitpart [c] = (if is_digit c then ([c], []) else ([], [c]))"
| "take_digitpart (c # u # cs) =
     (if is_digit c then
        (if is_digit u then (case take_digitpart (u # cs) of (ds, r) \<Rightarrow> (c # ds, r))
         else if u = CHR ''_'' \<and> cs \<noteq> [] \<and> is_digit (hd cs)
           then (case take_digitpart cs of (ds, r) \<Rightarrow> (c # ds, r))
         else ([c], u # cs))
      else ([], c # u # cs))"

definition digits_int :: "string \<Rightarrow> int" where
  "digits_int ds = (case digits_val 0 ds of Some n \<Rightarrow> n | None \<Rightarrow> 0)"

definition scale10 :: "int \<Rightarrow> int \<Rightarrow> rat" where
  "scale10 m e = (if 0 \<le> e then of_int m * 10 ^ nat e else of_int m / 10 ^ nat (- e))"

text \<open>The exponent part: \<^verbatim>\<open>e\<close> or \<^verbatim>\<open>E\<close>, optional sign, digits; nothing may follow.\<close>

definition parse_exponent :: "string \<Rightarrow> int option" where
  "parse_exponent s =
     (case s of
        [] \<Rightarrow> Some 0
      | c # cs \<Rightarrow>
          if c = CHR ''e'' \<or> c = CHR ''E'' then
            (let (neg, ds0) =
               (case cs of
                  [] \<Rightarrow> (False, [])
                | x # xs \<Rightarrow> if x = CHR ''-'' then (True, xs)
                            else if x = CHR ''+'' then (False, xs) else (False, cs))
             in case take_digitpart ds0 of
                  (ds, r) \<Rightarrow>
                    if ds = [] \<or> r \<noteq> [] then None
                    else Some (if neg then - digits_int ds else digits_int ds))
          else None)"

definition parse_unsigned :: "string \<Rightarrow> pyfloat option" where
  "parse_unsigned s =
     (if lower s = ''inf'' \<or> lower s = ''infinity'' then Some PosInf
      else if lower s = ''nan'' then Some NaN
      else
        (case take_digitpart s of
           (ip, r1) \<Rightarrow>
             (case r1 of
                c # r2 \<Rightarrow>
                  if c = CHR ''.'' then
                    (case take_digitpart r2 of
                       (fp, r3) \<Rightarrow>
                         if ip = [] \<and> fp = [] then None
                         else (case parse_exponent r3 of
                                 None \<Rightarrow> None
                               | Some e \<Rightarrow>
                                   Some (Fin (scale10 (digits_int (ip @ fp)) (e - int (length fp))))))
                  else if ip = [] then None
                  else (case parse_exponent r1 of
                          None \<Rightarrow> None
                        | Some e \<Rightarrow> Some (Fin (scale10 (digits_int ip) e)))
              | [] \<Rightarrow> if ip = [] then None else Some (Fin (of_int (digits_int ip))))))"

definition pyfloat_neg :: "pyfloat \<Rightarrow> pyfloat" where
  "pyfloat_neg x = (case x of Fin r \<Rightarrow> Fin (- r) | PosInf \<Rightarrow> NegInf | NegInf \<Rightarrow> PosInf | NaN \<Rightarrow> NaN)"

definition py_float :: "string \<Rightarrow> pyfloat option" where
  "py_float s0 =
     (case strip s0 of
        [] \<Rightarrow> None
      | c # cs \<Rightarrow>
          if c = CHR ''-'' then map_option pyfloat_neg (parse_unsigned cs)
          else if c = CHR ''+'' then parse_unsigned cs
          else parse_unsigned (c # cs))"

text \<open>\<^verbatim>\<open>int(s)\<close> on a string: optional sign and a digit part, nothing else.\<close>

definition py_int_of_string :: "string \<Rightarrow> int option" where
  "py_int_of_string s0 =
     (let s = strip s0;
          (neg, body) =
            (case s of
               [] \<Rightarrow> (False, [])
             | c # cs \<Rightarrow> if c = CHR ''-'' then (True, cs)
                         else if c = CHR ''+'' then (False, cs) else (False, s))
      in case take_digitpart body of
           (ds, r) \<Rightarrow>
             if ds = [] \<or> r \<noteq> [] then None
             else Some (if neg then - digits_int ds else digits_int ds))"


section \<open>Tables\<close>

text \<open>
  A cell of a DataFrame: a missing value (NaN, None, NaT), a number, a string or a date.
  A column has a numeric dtype or the object dtype; a row gives a cell to every column
  name (the names outside \<open>columns\<close> are never read).\<close>

datatype cell = CNull | CNum rat | CStr string | CDate date

datatype dtype = Numeric | Object

record frame =
  columns :: "(string \<times> dtype) list"
  rows :: "(string \<Rightarrow> cell) list"

definition colnames :: "frame \<Rightarrow> string list" where
  "colnames df = map fst (columns df)"

definition has_col :: "frame \<Rightarrow> string \<Rightarrow> bool" where
  "has_col df c = (c \<in> set (colnames df))"

text \<open>\<^verbatim>\<open>pd.api.types.is_numeric_dtype(df[c])\<close> for a column that exists.\<close>

definition is_numeric_col :: "frame \<Rightarrow> string \<Rightarrow> bool" where
  "is_numeric_col df c = (map_of (columns df) c = Some Numeric)"

text \<open>
  \<^verbatim>\<open>df[c] = values\<close>: an existing column is replaced where it stands, a new one is
  appended; \<open>vals\<close> has one entry per row.\<close>

definition set_dtype :: "string \<Rightarrow> dtype \<Rightarrow> (string \<times> dtype) list \<Rightarrow> (string \<times> dtype) list" where
  "set_dtype c t cols =
     (if c \<in> set (map fst cols) then map (\<lambda>(n, t0). if n = c then (n, t) else (n, t0)) cols
      else cols @ [(c, t)])"

definition setitem :: "string \<Rightarrow> dtype \<Rightarrow> cell list \<Rightarrow> frame \<Rightarrow> frame" where
  "setitem c t vals df =
     \<lparr>columns = set_dtype c t (columns df),
      rows = map (\<lambda>(r, v). r(c := v)) (zip (rows df) vals)\<rparr>"

text \<open>
  A filter value after \<^verbatim>\<open>_coerce_scalar_for_series\<close>: a date or None for a date
  column, a float for a numeric column, the value as it came otherwise.\<close>

datatype scalar = SDate "date option" | SNum pyfloat | SRaw pyval

section \<open>What the source leaves to Python and pandas\<close>

text \<open>
  Three behaviours are used by the source but fixed neither by it nor by the library's
  documentation, and are parameters of the model:
  \<^item> \<open>rt_str\<close>: \<^verbatim>\<open>str(x)\<close> for a value that is not a string;
  \<^item> \<open>rt_contains\<close>: one element of
    \<^verbatim>\<open>ser.astype(str).str.contains(str(val), case=False, na=False)\<close>, a regular
    expression search that can raise;
  \<^item> \<open>rt_argsort\<close>: the permutation chosen by \<^verbatim>\<open>sort_values(col, ascending=asc)\<close>
    for the cells of the column. The source does not pass \<^verbatim>\<open>kind\<close>, so pandas
    sorts with its default, quicksort, which pandas documents as not stable.\<close>

record runtime =
  rt_str :: "pyval \<Rightarrow> string"
  rt_contains :: "scalar \<Rightarrow> cell \<Rightarrow> error + bool"
  rt_argsort :: "cell list \<Rightarrow> bool \<Rightarrow> error + nat list"

text \<open>Sequencing of computations that can raise.\<close>

definition bindE :: "error + 'a \<Rightarrow> ('a \<Rightarrow> error + 'b) \<Rightarrow> error + 'b" where
  "bindE m f = (case m of Inl e \<Rightarrow> Inl e | Inr x \<Rightarrow> f x)"

fun mapE :: "('a \<Rightarrow> error + 'b) \<Rightarrow> 'a list \<Rightarrow> error + 'b list" where
  "mapE f [] = Inr []"
| "mapE f (x # xs) = bindE (f x) (\<lambda>y. bindE (mapE f xs) (\<lambda>ys. Inr (y # ys)))"

text \<open>
  Iterating over a value with \<^verbatim>\<open>for x in v\<close>: the elements of a list, the
  characters of a string, the keys of a dict; anything else is not iterable.\<close>

definition dict_keys :: "(string \<times> pyval) list \<Rightarrow> string list" where
  "dict_keys kvs = rev (remdups (rev (map fst kvs)))"

fun py_iter :: "pyval \<Rightarrow> error + pyval list" where
  "py_iter (PList xs) = Inr xs"
| "py_iter (PStr s) = Inr (map (\<lambda>c. PStr [c]) s)"
| "py_iter (PDict kvs) = Inr (map PStr (dict_keys kvs))"
| "py_iter v = Inl TypeError"

text \<open>\<^verbatim>\<open>for x in (v or [])\<close>.\<close>

definition iter_or_empty :: "pyval \<Rightarrow> error + pyval list" where
  "iter_or_empty v = (if truthy v then py_iter v else Inr [])"

text \<open>\<^verbatim>\<open>x.get(k)\<close>: only a dict has the method.\<close>

fun py_get :: "pyval \<Rightarrow> string \<Rightarrow> error + pyval" where
  "py_get (PDict kvs) k = Inr (dict_get kvs k)"
| "py_get v k = Inl AttributeError"

section \<open>Column resolution (aliases.py)\<close>

definition COLUMN_ALIASES :: "(string \<times> string) list" where
  "COLUMN_ALIASES =
     [(''customer_name'', ''company_name''),
      (''client_name'', ''company_name''),
      (''account_name'', ''company_name''),
      (''company'', ''company_name''),
      (''customer'', ''company_name''),
      (''client'', ''company_name''),
      (''name'', ''company_name''),
      (''revenue'', ''period_revenue_usd''),
      (''total_revenue'', ''period_revenue_usd''),
      (''revenue_usd'', ''period_revenue_usd''),
      (''period_revenue'', ''period_revenue_usd''),
      (''mrr'', ''mrr_usd''),
      (''arr'', ''mrr_usd''),
      (''start_date'', ''contract_start''),
      (''end_date'', ''contract_end''),
      (''contract_start_date'', ''contract_start''),
      (''contract_end_date'', ''contract_end''),
      (''is_churn'', ''churn''),
      (''churn_flag'', ''churn''),
      (''churn_probability'', ''churn_probability_percent''),
      (''churn_prob'', ''churn_probability_percent''),
      (''churn_risk'', ''churn_probability_percent''),
      (''probability_of_churn'', ''churn_probability_percent''),
      (''services_used'', ''services_used_count''),
      (''service_count'', ''services_used_count''),
      (''num_services'', ''services_used_count''),
      (''number_of_services'', ''services_used_count''),
      (''feedback_text'', ''feedback''),
      (''customer_feedback'', ''feedback''),
      (''notes'', ''feedback'')]"

definition VIRTUAL_COLS :: "string list" where
  "VIRTUAL_COLS = [''period_revenue_usd'']"

text \<open>The loop of \<^verbatim>\<open>_as_col_name\<close> over the keys col, name, field, column.\<close>

fun first_name_key :: "(string \<times> pyval) list \<Rightarrow> string list \<Rightarrow> string option" where
  "first_name_key kvs [] = None"
| "first_name_key kvs (k # ks) =
     (case dict_get kvs k of
        PStr v \<Rightarrow> if strip v \<noteq> [] then Some (strip v) else first_name_key kvs ks
      | _ \<Rightarrow> first_name_key kvs ks)"

fun as_col_name :: "pyval \<Rightarrow> string option" where
  "as_col_name (PStr s) = Some (strip s)"
| "as_col_name (PDict kvs) =
     (case first_name_key kvs [''col'', ''name'', ''field'', ''column''] of
        Some n \<Rightarrow> Some n
      | None \<Rightarrow>
          (case dict_get kvs ''expr'' of
             PStr expr \<Rightarrow>
               if str_in ''period_revenue_usd'' expr then Some ''period_revenue_usd''
               else if str_in ''mrr_usd'' expr then Some ''mrr_usd''
               else None
           | _ \<Rightarrow> None))"
| "as_col_name v = None"

text \<open>
  \<^verbatim>\<open>resolve_col(col_like, schema)\<close>; an empty name is falsy and resolves to nothing.\<close>

definition resolve_col :: "pyval \<Rightarrow> string set \<Rightarrow> string option" where
  "resolve_col col_like schema =
     (case as_col_name col_like of
        None \<Rightarrow> None
      | Some name \<Rightarrow>
          if name = [] then None
          else if name \<in> schema \<or> name \<in> set VIRTUAL_COLS then Some name
          else
            (case map_of COLUMN_ALIASES (lower name) of
               Some mapped \<Rightarrow>
                 if mapped \<in> schema \<or> mapped \<in> set VIRTUAL_COLS then Some mapped else None
             | None \<Rightarrow> None))"



text \<open>\<^verbatim>\<open>(f.get("op") or "==").strip()\<close>: only a string has \<^verbatim>\<open>strip\<close>.\<close>

definition filter_op :: "pyval \<Rightarrow> error + string" where
  "filter_op v =
     (if truthy v then (case v of PStr s \<Rightarrow> Inr (strip s) | _ \<Rightarrow> Inl AttributeError)
      else Inr ''=='')"






section \<open>Filters (tools.py)\<close>

definition DATE_COLS :: "string list" where
  "DATE_COLS = [''signup_date'', ''contract_start'', ''contract_end'']"

definition is_date_col :: "string \<Rightarrow> bool" where
  "is_date_col col = (col \<in> set DATE_COLS \<or> endswith col ''_date'')"

text \<open>
  \<^verbatim>\<open>pd.to_numeric(val, errors="coerce")\<close> on a scalar: a number stays, a string is
  parsed, None and anything unparseable is NaN. A list becomes an array and a dict raises
  inside the \<^verbatim>\<open>try\<close>, so both are handed on as they are.\<close>

fun to_numeric :: "pyval \<Rightarrow> scalar" where
  "to_numeric PNone = SNum NaN"
| "to_numeric (PBool b) = SNum (Fin (if b then 1 else 0))"
| "to_numeric (PInt n) = SNum (Fin (of_int n))"
| "to_numeric (PFloat r) = SNum (Fin r)"
| "to_numeric (PStr s) = SNum (case py_float s of Some x \<Rightarrow> x | None \<Rightarrow> NaN)"
| "to_numeric v = SRaw v"

text \<open>\<^verbatim>\<open>_coerce_scalar_for_series(val, ser, col_name)\<close>, \<open>df\<close> being the frame of \<^verbatim>\<open>ser\<close>.\<close>

definition coerce_scalar_for_series :: "pyval \<Rightarrow> frame \<Rightarrow> string \<Rightarrow> error + scalar" where
  "coerce_scalar_for_series val df col_name =
     (if is_date_col col_name then bindE (to_pydate val) (\<lambda>d. Inr (SDate d))
      else if is_numeric_col df col_name then Inr (to_numeric val)
      else Inr (SRaw val))"

text \<open>\<^verbatim>\<open>x is None\<close> on a coerced value; NaN is not None.\<close>

fun is_None :: "scalar \<Rightarrow> bool" where
  "is_None (SDate None) = True"
| "is_None (SRaw PNone) = True"
| "is_None v = False"

text \<open>A missing scalar, for which pandas answers a comparison without comparing.\<close>

fun scalar_isna :: "scalar \<Rightarrow> bool" where
  "scalar_isna (SDate None) = True"
| "scalar_isna (SNum NaN) = True"
| "scalar_isna (SRaw PNone) = True"
| "scalar_isna v = False"

fun scalar_listlike :: "scalar \<Rightarrow> bool" where
  "scalar_listlike (SRaw (PList xs)) = True"
| "scalar_listlike (SRaw (PDict kvs)) = True"
| "scalar_listlike v = False"

datatype cmpop = Eq | Ne | Gt | Lt | Ge | Le

definition ord_cmp :: "cmpop \<Rightarrow> 'a::linorder \<Rightarrow> 'a \<Rightarrow> bool" where
  "ord_cmp op x y =
     (case op of Eq \<Rightarrow> x = y | Ne \<Rightarrow> x \<noteq> y | Gt \<Rightarrow> y < x | Lt \<Rightarrow> x < y | Ge \<Rightarrow> y \<le> x | Le \<Rightarrow> x \<le> y)"

definition num_cmp :: "cmpop \<Rightarrow> rat \<Rightarrow> pyfloat \<Rightarrow> bool" where
  "num_cmp op x f =
     (case f of
        Fin y \<Rightarrow> ord_cmp op x y
      | PosInf \<Rightarrow> (op = Ne \<or> op = Lt \<or> op = Le)
      | NegInf \<Rightarrow> (op = Ne \<or> op = Gt \<or> op = Ge)
      | NaN \<Rightarrow> (op = Ne))"

text \<open>Strings compare by code point, a proper prefix being smaller.\<close>

fun str_less :: "string \<Rightarrow> string \<Rightarrow> bool" where
  "str_less [] [] = False"
| "str_less [] (y # ys) = True"
| "str_less (x # xs) [] = False"
| "str_less (x # xs) (y # ys) =
     ((of_char x :: nat) < of_char y \<or> (x = y \<and> str_less xs ys))"

definition str_cmp :: "cmpop \<Rightarrow> string \<Rightarrow> string \<Rightarrow> bool" where
  "str_cmp op x y =
     (case op of Eq \<Rightarrow> x = y | Ne \<Rightarrow> x \<noteq> y | Gt \<Rightarrow> str_less y x | Lt \<Rightarrow> str_less x y
      | Ge \<Rightarrow> \<not> str_less x y | Le \<Rightarrow> \<not> str_less y x)"

text \<open>Values of different kinds: unequal, and not ordered.\<close>

definition mismatch :: "cmpop \<Rightarrow> error + bool" where
  "mismatch op = (if op = Eq then Inr False else if op = Ne then Inr True else Inl TypeError)"

text \<open>
  One element of \<^verbatim>\<open>ser <op> val\<close>. A missing cell or a missing scalar compares
  unequal to everything; otherwise the two values are compared as Python compares them.\<close>

fun cmp_cell :: "cmpop \<Rightarrow> scalar \<Rightarrow> cell \<Rightarrow> error + bool" where
  "cmp_cell op sc CNull = Inr (op = Ne)"
| "cmp_cell op (SNum f) (CNum x) = Inr (num_cmp op x f)"
| "cmp_cell op (SRaw (PInt n)) (CNum x) = Inr (ord_cmp op x (of_int n))"
| "cmp_cell op (SRaw (PFloat r)) (CNum x) = Inr (ord_cmp op x r)"
| "cmp_cell op (SRaw (PBool b)) (CNum x) = Inr (ord_cmp op x (if b then 1 else 0))"
| "cmp_cell op sc (CNum x) = mismatch op"
| "cmp_cell op (SRaw (PStr t)) (CStr s) = Inr (str_cmp op s t)"
| "cmp_cell op sc (CStr s) = mismatch op"
| "cmp_cell op (SDate (Some e)) (CDate d) = Inr (ord_cmp op d e)"
| "cmp_cell op sc (CDate d) = mismatch op"

text \<open>
  \<^verbatim>\<open>out[out[col] <op> val]\<close>. Against a list or a dict pandas compares element by
  element and raises unless the lengths agree; the model raises.\<close>

definition filter_cmp :: "cmpop \<Rightarrow> string \<Rightarrow> scalar \<Rightarrow> frame \<Rightarrow> error + frame" where
  "filter_cmp op col sc out =
     (if scalar_listlike sc then Inl ValueError
      else if scalar_isna sc then Inr (out\<lparr>rows := filter (\<lambda>r. op = Ne) (rows out)\<rparr>)
      else bindE (mapE (\<lambda>r. cmp_cell op sc (r col)) (rows out)) (\<lambda>mask.
             Inr (out\<lparr>rows := map fst (filter snd (zip (rows out) mask))\<rparr>)))"

text \<open>One element of \<^verbatim>\<open>ser.isin(vals)\<close>: equality as a hash table sees it.\<close>

fun isin_match :: "cell \<Rightarrow> scalar \<Rightarrow> bool" where
  "isin_match CNull sc = scalar_isna sc"
| "isin_match (CNum x) (SNum f) = (f = Fin x)"
| "isin_match (CNum x) (SRaw (PInt n)) = (x = of_int n)"
| "isin_match (CNum x) (SRaw (PFloat r)) = (x = r)"
| "isin_match (CNum x) (SRaw (PBool b)) = (x = (if b then 1 else 0))"
| "isin_match (CStr s) (SRaw (PStr t)) = (s = t)"
| "isin_match (CDate d) (SDate (Some e)) = (d = e)"
| "isin_match c sc = False"

definition filter_isin :: "string \<Rightarrow> scalar list \<Rightarrow> frame \<Rightarrow> error + frame" where
  "filter_isin col vals out =
     (if list_ex scalar_listlike vals then Inl TypeError
      else Inr (out\<lparr>rows := filter (\<lambda>r. list_ex (isin_match (r col)) vals) (rows out)\<rparr>))"

definition filter_contains :: "runtime \<Rightarrow> string \<Rightarrow> scalar \<Rightarrow> frame \<Rightarrow> error + frame" where
  "filter_contains rt col sc out =
     bindE (mapE (\<lambda>r. rt_contains rt sc (r col)) (rows out)) (\<lambda>mask.
       Inr (out\<lparr>rows := map fst (filter snd (zip (rows out) mask))\<rparr>))"

text \<open>The bounds of a \<^verbatim>\<open>between\<close> filter before coercion.\<close>

fun between_bounds :: "pyval \<Rightarrow> pyval \<times> pyval" where
  "between_bounds (PDict kvs) = (dict_get kvs ''start'', dict_get kvs ''end'')"
| "between_bounds (PList [lo, hi]) = (lo, hi)"
| "between_bounds v = (PNone, PNone)"

definition cmpop_of :: "string \<Rightarrow> cmpop option" where
  "cmpop_of op =
     (if op = ''=='' then Some Eq
      else if op = ''!='' then Some Ne
      else if op = ''>'' then Some Gt
      else if op = ''<'' then Some Lt
      else if op = ''>='' then Some Ge
      else if op = ''<='' then Some Le
      else None)"

text \<open>
  The body of the loop of \<^verbatim>\<open>_apply_filters\<close> for one filter \<open>f\<close>, \<open>out\<close> being the
  rows kept so far.\<close>

definition apply_filter :: "runtime \<Rightarrow> string set \<Rightarrow> frame \<Rightarrow> pyval \<Rightarrow> error + frame" where
  "apply_filter rt schema out f =
     bindE (py_get f ''col'') (\<lambda>raw_col.
     bindE (bindE (py_get f ''op'') filter_op) (\<lambda>op.
     bindE (py_get f ''value'') (\<lambda>val.
       case resolve_col raw_col schema of
         None \<Rightarrow> Inr out
       | Some col \<Rightarrow>
           if \<not> has_col out col then Inr out
           else if op = ''between'' then
             (case between_bounds val of
                (lo0, hi0) \<Rightarrow>
                  bindE (coerce_scalar_for_series lo0 out col) (\<lambda>lo.
                  bindE (coerce_scalar_for_series hi0 out col) (\<lambda>hi.
                  bindE (if \<not> is_None lo then filter_cmp Ge col lo out else Inr out) (\<lambda>out1.
                    if \<not> is_None hi then filter_cmp Le col hi out1 else Inr out1))))
           else if op = ''in'' then
             bindE (mapE (\<lambda>v. coerce_scalar_for_series v out col)
                      (case val of PList xs \<Rightarrow> xs | _ \<Rightarrow> [val])) (\<lambda>vals.
               filter_isin col vals out)
           else
             bindE (coerce_scalar_for_series val out col) (\<lambda>sc.
               case cmpop_of op of
                 Some c \<Rightarrow> filter_cmp c col sc out
               | None \<Rightarrow>
                   if op = ''contains'' then filter_contains rt col sc out
                   else Inr out))))"

fun foldE :: "('b \<Rightarrow> 'a \<Rightarrow> error + 'b) \<Rightarrow> 'b \<Rightarrow> 'a list \<Rightarrow> error + 'b" where
  "foldE f acc [] = Inr acc"
| "foldE f acc (x # xs) = bindE (f acc x) (\<lambda>acc'. foldE f acc' xs)"

text \<open>\<^verbatim>\<open>_apply_filters(df, filters, schema)\<close>.\<close>

definition apply_filters :: "runtime \<Rightarrow> frame \<Rightarrow> pyval \<Rightarrow> string set \<Rightarrow> error + frame" where
  "apply_filters rt df filters schema =
     (if \<not> truthy filters then Inr df
      else bindE (py_iter filters) (\<lambda>fs. foldE (apply_filter rt schema) df fs))"

section \<open>The stages of tool_query (tools.py)\<close>

subsection \<open>Normalising the date columns\<close>

text \<open>One element of \<^verbatim>\<open>pd.to_datetime(ser, errors="coerce").dt.date\<close>.\<close>

fun to_date_cell :: "cell \<Rightarrow> cell" where
  "to_date_cell CNull = CNull"
| "to_date_cell (CDate d) = CDate d"
| "to_date_cell (CStr s) = (case parse_iso_date s of Some d \<Rightarrow> CDate d | None \<Rightarrow> CNull)"
| "to_date_cell (CNum x) = CDate (epoch_ordinal + \<lfloor>x\<rfloor> div ns_per_day)"

definition normalize_col :: "string \<Rightarrow> frame \<Rightarrow> frame" where
  "normalize_col c out = setitem c Object (map (\<lambda>r. to_date_cell (r c)) (rows out)) out"

text \<open>\<^verbatim>\<open>for c in (DATE_COLS & schema): out[c] = ...\<close>\<close>

definition normalize_dates :: "string set \<Rightarrow> frame \<Rightarrow> frame" where
  "normalize_dates schema out =
     fold (\<lambda>c d. if c \<in> schema then normalize_col c d else d) DATE_COLS out"

subsection \<open>Materialising the revenue column\<close>

text \<open>\<^verbatim>\<open>s in v\<close> for a string \<open>s\<close>, and \<^verbatim>\<open>s in (v or [])\<close>.\<close>

fun str_member :: "string \<Rightarrow> pyval \<Rightarrow> error + bool" where
  "str_member s (PList xs) = Inr (PStr s \<in> set xs)"
| "str_member s (PStr t) = Inr (str_in s t)"
| "str_member s (PDict kvs) = Inr (s \<in> set (map fst kvs))"
| "str_member s v = Inl TypeError"

definition member_or_empty :: "string \<Rightarrow> pyval \<Rightarrow> error + bool" where
  "member_or_empty s v = (if truthy v then str_member s v else Inr False)"

text \<open>\<^verbatim>\<open>any(ob.get("col") == c for ob in obs)\<close>, which stops at the first hit.\<close>

fun any_col_is :: "string \<Rightarrow> pyval list \<Rightarrow> error + bool" where
  "any_col_is c [] = Inr False"
| "any_col_is c (ob # obs) =
     bindE (py_get ob ''col'') (\<lambda>v. if v = PStr c then Inr True else any_col_is c obs)"

definition wants_period_rev :: "(string \<times> pyval) list \<Rightarrow> error + bool" where
  "wants_period_rev args =
     bindE (member_or_empty ''period_revenue_usd'' (dict_get args ''select'')) (\<lambda>in_select.
       if in_select then Inr True
       else
         bindE (if map_of args ''aggregations'' \<noteq> None
                then member_or_empty ''period_revenue_usd'' (dict_get args ''aggregations'')
                else Inr False) (\<lambda>in_aggs.
           if in_aggs then Inr True
           else bindE (iter_or_empty (dict_get args ''order_by''))
                  (any_col_is ''period_revenue_usd'')))"

text \<open>\<^verbatim>\<open>_to_pydate(win.get(k)) if win else None\<close>\<close>

definition window_bound :: "pyval \<Rightarrow> string \<Rightarrow> error + date option" where
  "window_bound win k = (if truthy win then bindE (py_get win k) to_pydate else Inr None)"

definition date_of_cell :: "cell \<Rightarrow> date option" where
  "date_of_cell c = (case c of CDate d \<Rightarrow> Some d | _ \<Rightarrow> None)"

text \<open>One element of \<^verbatim>\<open>(out["mrr_usd"] * out["overlap_months"]).round(2)\<close>.\<close>

fun mul_round :: "cell \<Rightarrow> cell \<Rightarrow> cell" where
  "mul_round (CNum x) (CNum n) = CNum (round2 (x * n))"
| "mul_round a b = CNull"

text \<open>
  The two assignments under the \<^verbatim>\<open>if\<close>: the function applied to each row, and
  the product. Rounding is defined for numeric columns; on an object column it raises.\<close>

definition row_overlap_months :: "date option \<Rightarrow> date option \<Rightarrow> (string \<Rightarrow> cell) \<Rightarrow> int" where
  "row_overlap_months ws we r =
     overlap_months (date_of_cell (r ''contract_start'')) (date_of_cell (r ''contract_end'')) ws we"

definition add_revenue :: "date option \<Rightarrow> date option \<Rightarrow> frame \<Rightarrow> error + frame" where
  "add_revenue ws we out =
     (let out1 = setitem ''overlap_months'' Numeric
                   (map (\<lambda>r. CNum (of_int (row_overlap_months ws we r))) (rows out)) out
      in if is_numeric_col out1 ''mrr_usd''
         then Inr (setitem ''period_revenue_usd'' Numeric
                     (map (\<lambda>r. mul_round (r ''mrr_usd'') (r ''overlap_months'')) (rows out1)) out1)
         else Inl TypeError)"

definition revenue_sources :: "string list" where
  "revenue_sources = [''contract_start'', ''contract_end'', ''mrr_usd'']"

text \<open>The condition of the \<^verbatim>\<open>if\<close> on line 111, given \<^verbatim>\<open>wants_period_rev\<close>.\<close>

definition revenue_triggered :: "(string \<times> pyval) list \<Rightarrow> bool \<Rightarrow> string set \<Rightarrow> bool" where
  "revenue_triggered args wants schema =
     ((truthy (dict_get args ''computed'') \<or> wants) \<and> set revenue_sources \<subseteq> schema)"

text \<open>
  Lines 103 to 119: the frame and the schema after the stage. The window falls back to
  2000-01-01 .. 2100-01-01 unless both bounds are dates.\<close>

definition materialize :: "frame \<Rightarrow> (string \<times> pyval) list \<Rightarrow> string set \<Rightarrow> error + frame \<times> string set" where
  "materialize out args schema =
     bindE (wants_period_rev args) (\<lambda>wants.
     bindE (window_bound (dict_get args ''time_window'') ''start'') (\<lambda>ws.
     bindE (window_bound (dict_get args ''time_window'') ''end'') (\<lambda>we.
       if revenue_triggered args wants schema then
         bindE (if ws = None \<or> we = None
                then bindE (to_pydate (PStr ''2000-01-01'')) (\<lambda>ws'.
                     bindE (to_pydate (PStr ''2100-01-01'')) (\<lambda>we'. add_revenue ws' we' out))
                else add_revenue ws we out) (\<lambda>out'.
           Inr (out', set (colnames out')))
       else Inr (out, schema))))"

subsection \<open>Projection and aggregation\<close>

text \<open>
  The loop that resolves a list of column references, dropping what does not resolve and
  what was seen before (\<^verbatim>\<open>select\<close>, \<^verbatim>\<open>group_by\<close>, and \<^verbatim>\<open>_fix_list\<close>).\<close>

definition resolve_append :: "string set \<Rightarrow> pyval \<Rightarrow> string list \<Rightarrow> string list" where
  "resolve_append schema c acc =
     (case resolve_col c schema of
        Some rc \<Rightarrow> if rc \<in> set acc then acc else acc @ [rc]
      | None \<Rightarrow> acc)"

definition resolve_list :: "pyval \<Rightarrow> string set \<Rightarrow> error + string list" where
  "resolve_list v schema =
     bindE (iter_or_empty v) (\<lambda>cs. Inr (fold (resolve_append schema) cs []))"

definition dict_items :: "(string \<times> pyval) list \<Rightarrow> (string \<times> pyval) list" where
  "dict_items kvs = map (\<lambda>k. (k, dict_get kvs k)) (dict_keys kvs)"

text \<open>\<^verbatim>\<open>(v or {}).items()\<close>: only a dict has the method.\<close>

definition items_or_empty :: "pyval \<Rightarrow> error + (string \<times> pyval) list" where
  "items_or_empty v =
     (if truthy v then (case v of PDict kvs \<Rightarrow> Inr (dict_items kvs) | _ \<Rightarrow> Inl AttributeError)
      else Inr [])"

text \<open>\<^verbatim>\<open>m[k] = v\<close> and \<^verbatim>\<open>m.setdefault(k, v)\<close> on a dict kept in insertion order.\<close>

definition dict_set :: "string \<Rightarrow> 'v \<Rightarrow> (string \<times> 'v) list \<Rightarrow> (string \<times> 'v) list" where
  "dict_set k v m =
     (if k \<in> set (map fst m) then map (\<lambda>(k', v'). if k' = k then (k', v) else (k', v')) m
      else m @ [(k, v)])"

definition setdefault :: "string \<Rightarrow> 'v \<Rightarrow> (string \<times> 'v) list \<Rightarrow> (string \<times> 'v) list" where
  "setdefault k v m = (if k \<in> set (map fst m) then m else m @ [(k, v)])"

definition VALID_AGGS :: "string list" where
  "VALID_AGGS = [''sum'', ''mean'', ''count'', ''nunique'']"

text \<open>One round of the loop over \<^verbatim>\<open>aggs_in.items()\<close>.\<close>

definition explicit_agg :: "frame \<Rightarrow> string set \<Rightarrow> string \<times> pyval \<Rightarrow> (string \<times> string) list \<Rightarrow> (string \<times> string) list" where
  "explicit_agg out schema kv agg_map =
     (let rc = (case resolve_col (PStr (fst kv)) schema of Some c \<Rightarrow> c | None \<Rightarrow> fst kv) in
      case snd kv of
        PStr how \<Rightarrow> if has_col out rc \<and> how \<in> set VALID_AGGS then dict_set rc how agg_map
                    else agg_map
      | _ \<Rightarrow> agg_map)"

text \<open>
  \<^verbatim>\<open>referenced_cols\<close>: the columns named by filters and order-by entries. The source
  collects them in a set, whose iteration order Python does not fix; the model keeps the
  order of first mention.\<close>

definition referenced_cols :: "frame \<Rightarrow> (string \<times> pyval) list \<Rightarrow> error + string list" where
  "referenced_cols out args =
     bindE (iter_or_empty (dict_get args ''filters'')) (\<lambda>fs.
     bindE (mapE (\<lambda>f. py_get f ''col'') fs) (\<lambda>fcols.
     bindE (iter_or_empty (dict_get args ''order_by'')) (\<lambda>obs.
     bindE (mapE (\<lambda>ob. py_get ob ''col'') obs) (\<lambda>ocols.
       Inr (remdups (List.map_filter (\<lambda>c. resolve_col c (set (colnames out))) (fcols @ ocols)))))))"

definition referenced_default :: "frame \<Rightarrow> string list \<Rightarrow> string \<Rightarrow> (string \<times> string) list \<Rightarrow> (string \<times> string) list" where
  "referenced_default out group_by col agg_map =
     (if col \<in> set group_by then agg_map
      else if has_col out col \<and> is_numeric_col out col then
        (if col = ''churn_probability_percent'' then setdefault col ''max'' agg_map
         else setdefault col ''sum'' agg_map)
      else agg_map)"

text \<open>Lines 150 to 186: the aggregation map of a grouped query.\<close>

definition build_agg_map :: "frame \<Rightarrow> (string \<times> pyval) list \<Rightarrow> string list \<Rightarrow> string list \<Rightarrow> (string \<times> string) list \<Rightarrow> error + (string \<times> string) list" where
  "build_agg_map out args select group_by agg0 =
     (let default_numeric =
            filter (\<lambda>c. c \<notin> set group_by \<and> has_col out c \<and> is_numeric_col out c) select;
          m1 = fold (\<lambda>c. setdefault c ''sum'') default_numeric agg0;
          m2 = (if has_col out ''period_revenue_usd'' then setdefault ''period_revenue_usd'' ''sum'' m1
                else m1);
          m3 = (if has_col out ''mrr_usd'' then setdefault ''mrr_usd'' ''sum'' m2 else m2)
      in bindE (referenced_cols out args) (\<lambda>refs.
           let m4 = fold (referenced_default out group_by) refs m3 in
           Inr (if m4 = [] then
                  (if has_col out ''period_revenue_usd'' then [(''period_revenue_usd'', ''sum'')]
                   else if has_col out ''mrr_usd'' then [(''mrr_usd'', ''sum'')]
                   else [])
                else m4)))"

text \<open>Insertion sort by a comparison, stable: equal elements keep their order.\<close>

fun insert_by :: "('a \<Rightarrow> 'a \<Rightarrow> bool) \<Rightarrow> 'a \<Rightarrow> 'a list \<Rightarrow> 'a list" where
  "insert_by le x [] = [x]"
| "insert_by le x (y # ys) = (if le x y then x # y # ys else y # insert_by le x ys)"

definition sort_by :: "('a \<Rightarrow> 'a \<Rightarrow> bool) \<Rightarrow> 'a list \<Rightarrow> 'a list" where
  "sort_by le xs = foldr (insert_by le) xs []"

text \<open>The order of cells of one kind; across kinds numbers, strings, dates.\<close>

fun cell_rank :: "cell \<Rightarrow> nat" where
  "cell_rank CNull = 3"
| "cell_rank (CNum x) = 0"
| "cell_rank (CStr s) = 1"
| "cell_rank (CDate d) = 2"

fun cell_le :: "cell \<Rightarrow> cell \<Rightarrow> bool" where
  "cell_le (CNum x) (CNum y) = (x \<le> y)"
| "cell_le (CStr s) (CStr t) = (\<not> str_less t s)"
| "cell_le (CDate d) (CDate e) = (d \<le> e)"
| "cell_le a b = (cell_rank a \<le> cell_rank b)"

fun key_le :: "cell list \<Rightarrow> cell list \<Rightarrow> bool" where
  "key_le [] ys = True"
| "key_le (x # xs) [] = False"
| "key_le (x # xs) (y # ys) = (if x = y then key_le xs ys else cell_le x y)"

definition dtype_of :: "frame \<Rightarrow> string \<Rightarrow> dtype" where
  "dtype_of df c = (case map_of (columns df) c of Some t \<Rightarrow> t | None \<Rightarrow> Object)"

definition nums_of :: "cell list \<Rightarrow> rat list" where
  "nums_of cells = List.map_filter (\<lambda>c. case c of CNum x \<Rightarrow> Some x | _ \<Rightarrow> None) cells"

definition strs_of :: "cell list \<Rightarrow> string list" where
  "strs_of cells = List.map_filter (\<lambda>c. case c of CStr s \<Rightarrow> Some s | _ \<Rightarrow> None) cells"

text \<open>
  One aggregated value of a group. Missing values are skipped. On an object column
  \<^verbatim>\<open>sum\<close> concatenates strings and fails on anything else, \<^verbatim>\<open>mean\<close> and
  \<^verbatim>\<open>max\<close> fail.\<close>

definition agg_cell :: "string \<Rightarrow> dtype \<Rightarrow> cell list \<Rightarrow> error + cell" where
  "agg_cell how dt cells =
     (if how = ''count'' then Inr (CNum (of_nat (length (filter (\<lambda>c. c \<noteq> CNull) cells))))
      else if how = ''nunique'' then
        Inr (CNum (of_nat (length (remdups (filter (\<lambda>c. c \<noteq> CNull) cells)))))
      else if dt = Numeric then
        (let xs = nums_of cells in
         if how = ''sum'' then Inr (CNum (sum_list xs))
         else if xs = [] then Inr CNull
         else if how = ''mean'' then Inr (CNum (sum_list xs / of_nat (length xs)))
         else Inr (CNum (fold max (tl xs) (hd xs))))
      else if how = ''sum'' \<and> length (strs_of cells) = length cells
        then Inr (CStr (concat (strs_of cells)))
      else Inl TypeError)"

definition agg_dtype :: "string \<Rightarrow> dtype \<Rightarrow> dtype" where
  "agg_dtype how dt = (if how = ''count'' \<or> how = ''nunique'' then Numeric else dt)"

text \<open>The row of the result for the group with key \<open>k\<close> and rows \<open>grp\<close>.\<close>

definition agg_row :: "frame \<Rightarrow> string list \<Rightarrow> (string \<times> string) list \<Rightarrow> cell list \<Rightarrow> (string \<Rightarrow> cell) list \<Rightarrow> error + (string \<Rightarrow> cell)" where
  "agg_row out group_by agg_map k grp =
     bindE (mapE (\<lambda>ch. agg_cell (snd ch) (dtype_of out (fst ch)) (map (\<lambda>r. r (fst ch)) grp)) agg_map)
       (\<lambda>vals.
          Inr (fold (\<lambda>cv r. r(fst cv := snd cv)) (zip (map fst agg_map) vals)
                 (fold (\<lambda>gv r. r(fst gv := snd gv)) (zip group_by k) (\<lambda>c. CNull))))"

text \<open>
  \<^verbatim>\<open>out.groupby(group_by, as_index=False).agg(agg_map)\<close>: rows with a missing key
  are dropped, there is one row per distinct key, in the order of the keys; a key that is
  no column is a KeyError, and an empty map leaves nothing to put together.\<close>

definition groupby_agg :: "frame \<Rightarrow> string list \<Rightarrow> (string \<times> string) list \<Rightarrow> error + frame" where
  "groupby_agg out group_by agg_map =
     (if list_ex (\<lambda>g. \<not> has_col out g) group_by then Inl KeyError
      else if agg_map = [] then Inl ValueError
      else
        let keyed = filter (\<lambda>r. list_all (\<lambda>g. r g \<noteq> CNull) group_by) (rows out);
            keys = sort_by key_le (remdups (map (\<lambda>r. map r group_by) keyed));
            key_cols = filter (\<lambda>g. g \<notin> set (map fst agg_map)) group_by
        in bindE (mapE (\<lambda>k. agg_row out group_by agg_map k
                               (filter (\<lambda>r. map r group_by = k) keyed)) keys)
             (\<lambda>rs. Inr \<lparr>columns = map (\<lambda>g. (g, dtype_of out g)) key_cols @
                                   map (\<lambda>ch. (fst ch, agg_dtype (snd ch) (dtype_of out (fst ch)))) agg_map,
                        rows = rs\<rparr>))"

text \<open>\<^verbatim>\<open>res.rename(columns={old: new})\<close>\<close>

definition rename_col :: "string \<Rightarrow> string \<Rightarrow> frame \<Rightarrow> frame" where
  "rename_col old new df =
     \<lparr>columns = map (\<lambda>ct. (if fst ct = old then new else fst ct, snd ct)) (columns df),
      rows = map (\<lambda>r. r(new := r old)) (rows df)\<rparr>"

definition churn_rename :: "(string \<times> string) list \<Rightarrow> frame \<Rightarrow> frame" where
  "churn_rename agg_map res =
     (if map_of agg_map ''churn'' = Some ''mean'' \<and> has_col res ''churn''
      then rename_col ''churn'' ''churn_rate'' res else res)"

text \<open>\<^verbatim>\<open>out[keep]\<close>\<close>

definition project :: "string list \<Rightarrow> frame \<Rightarrow> frame" where
  "project keep out = \<lparr>columns = map (\<lambda>c. (c, dtype_of out c)) keep, rows = rows out\<rparr>"

text \<open>Lines 124 to 194: from the filtered frame to the projected or aggregated one.\<close>

definition project_or_aggregate :: "frame \<Rightarrow> (string \<times> pyval) list \<Rightarrow> string set \<Rightarrow> error + frame" where
  "project_or_aggregate out args schema =
     bindE (resolve_list (dict_get args ''select'') schema) (\<lambda>sel.
       let select = (if sel = [] then colnames out else sel) in
       bindE (items_or_empty (dict_get args ''aggregations'')) (\<lambda>aggs_in.
         let agg0 = fold (explicit_agg out schema) aggs_in [] in
         bindE (resolve_list (dict_get args ''group_by'') schema) (\<lambda>group_by.
           if group_by \<noteq> [] then
             bindE (build_agg_map out args select group_by agg0) (\<lambda>agg_map.
             bindE (groupby_agg out group_by agg_map) (\<lambda>res.
               Inr (churn_rename agg_map res)))
           else Inr (project (filter (has_col out) select) out))))"

subsection \<open>Ordering and limiting\<close>

definition resolve_order_by :: "frame \<Rightarrow> (string \<times> pyval) list \<Rightarrow> error + (string \<times> bool) list" where
  "resolve_order_by res args =
     bindE (iter_or_empty (dict_get args ''order_by'')) (\<lambda>obs.
     bindE (mapE (\<lambda>ob. bindE (py_get ob ''col'') (\<lambda>c.
                        bindE (py_get ob ''desc'') (\<lambda>d.
                          Inr (map_option (\<lambda>rc. (rc, truthy d))
                                 (resolve_col c (set (colnames res))))))) obs) (\<lambda>rs.
       Inr (List.map_filter id rs)))"

text \<open>\<^verbatim>\<open>res.sort_values(col, ascending=asc)\<close>: the rows in the order the sort chose.\<close>

definition sort_values :: "runtime \<Rightarrow> string \<Rightarrow> bool \<Rightarrow> frame \<Rightarrow> error + frame" where
  "sort_values rt col asc res =
     bindE (rt_argsort rt (map (\<lambda>r. r col) (rows res)) asc) (\<lambda>idx.
       Inr (res\<lparr>rows := map (\<lambda>i. rows res ! i) idx\<rparr>))"

text \<open>\<^verbatim>\<open>for ob in order_by[::-1]\<close>\<close>

definition apply_order :: "runtime \<Rightarrow> frame \<Rightarrow> (string \<times> bool) list \<Rightarrow> error + frame" where
  "apply_order rt res order_by =
     foldE (\<lambda>r ob. if has_col r (fst ob) then sort_values rt (fst ob) (\<not> snd ob) r else Inr r)
       res (rev order_by)"

text \<open>\<^verbatim>\<open>int(x)\<close>\<close>

fun py_int :: "pyval \<Rightarrow> error + int" where
  "py_int (PBool b) = Inr (if b then 1 else 0)"
| "py_int (PInt n) = Inr n"
| "py_int (PFloat r) = Inr (if 0 \<le> r then \<lfloor>r\<rfloor> else \<lceil>r\<rceil>)"
| "py_int (PStr s) = (case py_int_of_string s of Some n \<Rightarrow> Inr n | None \<Rightarrow> Inl ValueError)"
| "py_int v = Inl TypeError"

text \<open>\<^verbatim>\<open>res.head(n)\<close>: the first n rows, or all but the last -n.\<close>

definition head :: "int \<Rightarrow> 'a list \<Rightarrow> 'a list" where
  "head n rs = (if 0 \<le> n then take (nat n) rs else take (length rs - nat (- n)) rs)"

definition apply_limit :: "frame \<Rightarrow> (string \<times> pyval) list \<Rightarrow> error + frame" where
  "apply_limit res args =
     (if truthy (dict_get args ''limit'')
      then bindE (py_int (dict_get args ''limit'')) (\<lambda>n. Inr (res\<lparr>rows := head n (rows res)\<rparr>))
      else Inr res)"

subsection \<open>The query executor\<close>

text \<open>
  \<^verbatim>\<open>tool_query(df, args)\<close>; \<^verbatim>\<open>reset_index(drop=True)\<close> renumbers the rows and
  changes nothing that the model holds.\<close>

definition tool_query :: "runtime \<Rightarrow> frame \<Rightarrow> (string \<times> pyval) list \<Rightarrow> error + frame" where
  "tool_query rt df args =
     (let schema = set (colnames df);
          out = normalize_dates schema df
      in bindE (materialize out args schema) (\<lambda>(out2, schema2).
         bindE (apply_filters rt out2 (dict_get args ''filters'') schema2) (\<lambda>out3.
         bindE (project_or_aggregate out3 args schema2) (\<lambda>res.
         bindE (resolve_order_by res args) (\<lambda>order_by.
         bindE (apply_order rt res order_by) (\<lambda>res2.
           apply_limit res2 args))))))"

section \<open>Two instances of the runtime\<close>

definition same_kind :: "cell list \<Rightarrow> bool" where
  "same_kind cells = (case cells of [] \<Rightarrow> True | c # cs \<Rightarrow> list_all (\<lambda>d. cell_rank d = cell_rank c) cs)"

text \<open>
  A stable sort, as \<^verbatim>\<open>kind="stable"\<close> gives: missing values last, the others
  ascending or descending, ties in their original order. Cells of different kinds cannot
  be compared.\<close>

definition stable_argsort :: "cell list \<Rightarrow> bool \<Rightarrow> error + nat list" where
  "stable_argsort keys asc =
     (let idx = [0..<length keys];
          present = filter (\<lambda>i. keys ! i \<noteq> CNull) idx;
          missing = filter (\<lambda>i. keys ! i = CNull) idx
      in if \<not> same_kind (map (\<lambda>i. keys ! i) present) then Inl TypeError
         else Inr (sort_by (\<lambda>i j. if asc then cell_le (keys ! i) (keys ! j)
                                   else cell_le (keys ! j) (keys ! i)) present @ missing))"

text \<open>A sort that orders the column as well but leaves ties in reverse order.\<close>

definition reversing_argsort :: "cell list \<Rightarrow> bool \<Rightarrow> error + nat list" where
  "reversing_argsort keys asc =
     (let idx = [0..<length keys];
          present = filter (\<lambda>i. keys ! i \<noteq> CNull) idx;
          missing = filter (\<lambda>i. keys ! i = CNull) idx
      in if \<not> same_kind (map (\<lambda>i. keys ! i) present) then Inl TypeError
         else Inr (sort_by (\<lambda>i j. if asc then cell_le (keys ! i) (keys ! j)
                                   else cell_le (keys ! j) (keys ! i)) (rev present) @ missing))"

text \<open>A plain, case-insensitive substring test on strings.\<close>

fun substring_contains :: "scalar \<Rightarrow> cell \<Rightarrow> error + bool" where
  "substring_contains (SRaw (PStr p)) (CStr s) = Inr (str_in (lower p) (lower s))"
| "substring_contains sc c = Inr False"

definition stable_runtime :: runtime where
  "stable_runtime =
     \<lparr>rt_str = (\<lambda>v. ''<object>''), rt_contains = substring_contains, rt_argsort = stable_argsort\<rparr>"

definition reversing_runtime :: runtime where
  "reversing_runtime =
     \<lparr>rt_str = (\<lambda>v. ''<object>''), rt_contains = substring_contains, rt_argsort = reversing_argsort\<rparr>"

text \<open>
  What every sort does, whatever its kind: the permutation it returns rearranges the
  positions of the column.\<close>

definition argsort_permutes :: "runtime \<Rightarrow> bool" where
  "argsort_permutes rt =
     (\<forall>keys asc idx. rt_argsort rt keys asc = Inr idx \<longrightarrow> mset idx = mset [0..<length keys])"

text \<open>A frame with the columns of another and some of its rows.\<close>

definition narrows :: "frame \<Rightarrow> frame \<Rightarrow> bool" where
  "narrows out' out = (columns out' = columns out \<and> mset (rows out') \<subseteq># mset (rows out))"

section \<open>Descriptors of the documented shape\<close>










text \<open>The nine operators that \<^verbatim>\<open>_apply_filters\<close> supports.\<close>

definition supported_ops :: "string list" where
  "supported_ops = [''=='', ''!='', ''>'', ''<'', ''>='', ''<='', ''in'', ''between'', ''contains'']"

text \<open>A list of two or more elements.\<close>

definition long_list :: "pyval \<Rightarrow> bool" where
  "long_list v = (case v of PList xs \<Rightarrow> 2 \<le> length xs | _ \<Rightarrow> False)"

section \<open>Example tables and queries\<close>

text \<open>The cells of the named columns of a result, row by row.\<close>

definition cells :: "string list \<Rightarrow> error + frame \<Rightarrow> error + cell list list" where
  "cells cs res = (case res of Inl e \<Rightarrow> Inl e | Inr f \<Rightarrow> Inr (map (\<lambda>r. map r cs) (rows f)))"

definition row_count :: "error + frame \<Rightarrow> error + nat" where
  "row_count res = (case res of Inl e \<Rightarrow> Inl e | Inr f \<Rightarrow> Inr (length (rows f)))"

text \<open>One contract running through 2023 at 100 a month.\<close>

definition contract_2023 :: frame where
  "contract_2023 =
     \<lparr>columns = [(''contract_start'', Object), (''contract_end'', Object), (''mrr_usd'', Numeric)],
      rows = [(\<lambda>c. CNull)(''contract_start'' := CStr ''2023-01-01'',
                            ''contract_end'' := CStr ''2023-12-31'',
                            ''mrr_usd'' := CNum 100)]\<rparr>"


text \<open>Three rows over two numeric columns.\<close>

definition ab_table :: frame where
  "ab_table =
     \<lparr>columns = [(''A'', Numeric), (''B'', Numeric)],
      rows = [(\<lambda>c. CNull)(''A'' := CNum 1, ''B'' := CNum 2),
              (\<lambda>c. CNull)(''A'' := CNum 1, ''B'' := CNum 1),
              (\<lambda>c. CNull)(''A'' := CNum 2, ''B'' := CNum 3)]\<rparr>"


section \<open>General lemmas\<close>

lemma bindE_simps: "bindE (Inr x) f = f x" "bindE (Inl e) f = Inl e"
  by (simp_all add: bindE_def)

lemma bindE_Inr: "(bindE m f = Inr y) = (\<exists>x. m = Inr x \<and> f x = Inr y)"
  by (cases m) (simp_all add: bindE_def)

lemma row_count_Inr: "(row_count r = Inr k) = (\<exists>res. r = Inr res \<and> length (rows res) = k)"
  by (cases r) (auto simp: row_count_def)

lemma tool_query_Inr:
  "(tool_query rt df args = Inr res) =
     (\<exists>out2 schema2 out3 res1 order_by res2.
        materialize (normalize_dates (set (colnames df)) df) args (set (colnames df)) = Inr (out2, schema2) \<and>
        apply_filters rt out2 (dict_get args ''filters'') schema2 = Inr out3 \<and>
        project_or_aggregate out3 args schema2 = Inr res1 \<and>
        resolve_order_by res1 args = Inr order_by \<and>
        apply_order rt res1 order_by = Inr res2 \<and>
        apply_limit res2 args = Inr res)"
  by (auto simp: tool_query_def Let_def bindE_Inr split: prod.splits)

section \<open>Filters only remove rows\<close>

lemma mapE_Inr_length: "mapE f xs = Inr ys \<Longrightarrow> length ys = length xs"
  by (induction xs arbitrary: ys) (auto simp: bindE_Inr)












section \<open>Properties of the filter sanitisation\<close>








section \<open>Properties of the derived metric\<close>










section \<open>The limit\<close>

lemma length_head_pos: "0 < n \<Longrightarrow> int (length (head n rs)) \<le> n"
  by (simp add: head_def)

lemma apply_limit_pos:
  assumes "dict_get args ''limit'' = PInt n" and "0 < n" and "apply_limit res args = Inr res'"
  shows "int (length (rows res')) \<le> n"
  using assms by (auto simp: apply_limit_def bindE_def length_head_pos)

lemma tool_query_ends_with_limit:
  assumes "tool_query rt df args = Inr res"
  shows "\<exists>res2. apply_limit res2 args = Inr res"
  using assms unfolding tool_query_Inr by blast

text \<open>
  C2 (amended). When the descriptor's limit is a positive integer N and
  \<^verbatim>\<open>tool_query\<close> returns a table, the table has at most N rows. (A limit of 0 is
  falsy and leaves the result untruncated, see the counterexample below.)\<close>

theorem positive_limit_bounds_rows:
  assumes "dict_get args ''limit'' = PInt n" and "0 < n"
      and "row_count (tool_query rt df args) = Inr k"
  shows "int k \<le> n"
proof -
  from assms(3) obtain res where res: "tool_query rt df args = Inr res" and k: "length (rows res) = k"
    unfolding row_count_Inr by blast
  from tool_query_ends_with_limit [OF res] obtain res2 where "apply_limit res2 args = Inr res"
    by blast
  from apply_limit_pos [OF assms(1) assms(2) this] k show ?thesis by simp
qed

lemma ab_limit_2: "row_count (tool_query stable_runtime ab_table [(''limit'', PInt 2)]) = Inr 2"
  by code_simp

theorem positive_limit_bounds_rows_witness:
  "dict_get [(''limit'', PInt 2)] ''limit'' = PInt 2 \<and> (0::int) < 2 \<and>
   row_count (tool_query stable_runtime ab_table [(''limit'', PInt 2)]) = Inr 2 \<and>
   int 2 \<le> 2"
proof -
  have l: "dict_get [(''limit'', PInt 2)] ''limit'' = PInt 2" by (simp add: dict_get_def)
  have p: "(0::int) < 2" by simp
  from positive_limit_bounds_rows [OF l p ab_limit_2] l p ab_limit_2 show ?thesis by blast
qed

text \<open>
  C2 as stated fails at N = 0: \<^verbatim>\<open>if args.get("limit")\<close> is false for 0, so the
  three rows of the table all come back.\<close>

theorem zero_limit_counterexample:
  "dict_get [(''limit'', PInt 0)] ''limit'' = PInt 0 \<and> (0::int) \<le> 0 \<and>
   row_count (tool_query stable_runtime ab_table [(''limit'', PInt 0)]) = Inr 3 \<and>
   \<not> int 3 \<le> 0"
proof -
  have "row_count (tool_query stable_runtime ab_table [(''limit'', PInt 0)]) = Inr 3" by code_simp
  then show ?thesis by (simp add: dict_get_def)
qed

section \<open>Materialisation of the revenue column\<close>









lemma rows_setitem:
  "length vals = length (rows df) \<Longrightarrow>
   rows (setitem c t vals df) = map (\<lambda>(r, v). r(c := v)) (zip (rows df) vals)"
  by (simp add: setitem_def)

lemma rows_setitem_map:
  "rows (setitem c t (map f (rows df)) df) = map (\<lambda>r. r(c := f r)) (rows df)"
  by (simp add: setitem_def zip_map2 zip_same_conv_map)









lemma mul_round_number: "mul_round (CNum x) (CNum n) \<noteq> CNull"
  by simp







section \<open>What the later stages keep\<close>









lemma narrows_colnames: "narrows a b \<Longrightarrow> colnames a = colnames b"
  by (simp add: narrows_def colnames_def)

lemma narrows_has_col: "narrows a b \<Longrightarrow> has_col a c = has_col b c"
  by (simp add: has_col_def narrows_colnames)


lemma narrows_length: "narrows a b \<Longrightarrow> length (rows a) \<le> length (rows b)"
  unfolding narrows_def using size_mset_mono by fastforce










section \<open>The two runtimes permute\<close>

lemma mset_insert_by: "mset (insert_by le x xs) = add_mset x (mset xs)"
  by (induction xs) simp_all

lemma mset_sort_by: "mset (sort_by le xs) = mset xs"
  unfolding sort_by_def by (induction xs) (simp_all add: mset_insert_by)

lemma mset_partition_upt: "mset (filter P xs) + mset (filter (\<lambda>i. \<not> P i) xs) = mset xs"
  by (induction xs) simp_all


lemma reversing_argsort_permutes:
  "reversing_argsort keys asc = Inr idx \<Longrightarrow> mset idx = mset [0..<length keys]"
  unfolding reversing_argsort_def Let_def
  using mset_partition_upt [of "\<lambda>i. keys ! i \<noteq> CNull" "[0..<length keys]"]
  by (auto simp: mset_sort_by split: if_splits simp del: mset_filter)


lemma reversing_runtime_permutes: "argsort_permutes reversing_runtime"
  unfolding argsort_permutes_def reversing_runtime_def
  by (auto dest: reversing_argsort_permutes)


section \<open>The intermediate month count in the result\<close>








section \<open>Unsupported operators\<close>

lemma to_pydate_raises: "to_pydate v = Inl e \<Longrightarrow> long_list v"
  by (cases v) (auto simp: long_list_def split: if_splits)

lemma coerce_returns:
  assumes "long_list val \<longrightarrow> \<not> is_date_col col"
  shows "\<exists>sc. coerce_scalar_for_series val out col = Inr sc"
proof (cases "is_date_col col")
  case True
  with assms have "\<not> long_list val" by simp
  then obtain d where "to_pydate val = Inr d"
    using to_pydate_raises [of val] by (cases "to_pydate val") auto
  with True show ?thesis by (simp add: coerce_scalar_for_series_def bindE_def)
next
  case False
  then show ?thesis by (simp add: coerce_scalar_for_series_def)
qed

lemma unsupported_op:
  assumes "op \<notin> set supported_ops"
  shows "op \<noteq> ''between''" "op \<noteq> ''in''" "op \<noteq> ''contains''" "cmpop_of op = None"
  using assms by (auto simp: supported_ops_def cmpop_of_def)

lemma apply_filters_single:
  "apply_filters rt out (PList [f]) schema = apply_filter rt schema out f"
  by (cases "apply_filter rt schema out f") (simp_all add: apply_filters_def bindE_def)

lemma strip_eq: "strip ''=='' = ''==''"
  by code_simp

text \<open>
  C9 (amended). Take a filter whose operator is a string (or is missing) and, once
  stripped, is none of the nine supported operators, and whose value is not a list of two
  or more elements meant for a date column. Then \<^verbatim>\<open>_apply_filters\<close> returns the table
  as it was, without raising. A filter with no operator field behaves as the same filter
  with the operator \<^verbatim>\<open>==\<close>.\<close>

theorem unsupported_operator_is_noop:
  assumes "filter_op (dict_get kvs ''op'') = Inr op"
      and "op \<notin> set supported_ops"
      and "long_list (dict_get kvs ''value'') \<longrightarrow>
             (case resolve_col (dict_get kvs ''col'') schema of
                Some c \<Rightarrow> \<not> is_date_col c | None \<Rightarrow> True)"
  shows "apply_filter rt schema out (PDict kvs) = Inr out \<and>
         apply_filters rt out (PList [PDict kvs]) schema = Inr out \<and>
         (\<forall>kvs'. map_of kvs' ''op'' = None \<longrightarrow>
            apply_filter rt schema out (PDict kvs') =
            apply_filter rt schema out (PDict ((''op'', PStr ''=='') # kvs')))"
proof -
  note ops = unsupported_op [OF assms(2)]
  have step: "apply_filter rt schema out (PDict kvs) = Inr out"
  proof (cases "resolve_col (dict_get kvs ''col'') schema")
    case None
    with assms(1) show ?thesis by (simp add: apply_filter_def bindE_def)
  next
    case (Some col)
    with assms(3) have "long_list (dict_get kvs ''value'') \<longrightarrow> \<not> is_date_col col" by simp
    from coerce_returns [OF this] obtain sc where
      "coerce_scalar_for_series (dict_get kvs ''value'') out col = Inr sc" by blast
    with assms(1) Some ops show ?thesis by (simp add: apply_filter_def bindE_def)
  qed
  have missing: "apply_filter rt schema out (PDict kvs') =
            apply_filter rt schema out (PDict ((''op'', PStr ''=='') # kvs'))"
    if "map_of kvs' ''op'' = None" for kvs'
  proof -
    have "filter_op (dict_get kvs' ''op'') = filter_op (PStr ''=='')"
      using that by (simp add: dict_get_def filter_op_def strip_eq)
    moreover have "dict_get ((''op'', PStr ''=='') # kvs') ''op'' = PStr ''==''"
      "dict_get ((''op'', PStr ''=='') # kvs') ''col'' = dict_get kvs' ''col''"
      "dict_get ((''op'', PStr ''=='') # kvs') ''value'' = dict_get kvs' ''value''"
      by (simp_all add: dict_get_def)
    ultimately show ?thesis
      by (simp add: apply_filter_def bindE_simps)
  qed
  from step missing show ?thesis by (simp add: apply_filters_single)
qed

section \<open>A descriptor on which tool_query raises\<close>

text \<open>
  C1. The claim is that \<^verbatim>\<open>tool_query\<close> returns a table for every descriptor,
  whatever its limit. On the one-row table below and the descriptor
  \<^verbatim>\<open>{"limit": "all"}\<close> the model follows the source to
  \<^verbatim>\<open>res.head(int(args["limit"]))\<close>, where \<^verbatim>\<open>int("all")\<close> raises ValueError:
  no table is returned.\<close>

theorem limit_string_raises:
  "row_count (tool_query rt contract_2023 [(''limit'', PStr ''all'')]) = Inl ValueError"
  by code_simp

end
